theory Spec2Isabelle
  imports Complex_Main
begin

section \<open>Python values, errors and effects\<close>

text \<open>
  The two scripts of the repository, \<^verbatim>\<open>demo/simple_scalar_optimization/demo.py\<close> and
  \<^verbatim>\<open>tests/test_assimilator.py\<close>, build an object graph of the libraries dolfin,
  dolfin_adjoint, pulse and pulse_adjoint and call into them. The objects the scripts
  construct are datatypes below; the computations of the libraries (reading a mesh,
  solving, optimising, integrating) are fields of the record \<open>ext\<close>, each returning an
  error or a value. An exception is a value \<open>Inl e\<close>; the effects of a run (objects
  created and assigned, the module flag \<^verbatim>\<open>pulse.annotation.annotate\<close>, printed lines)
  are collected in a \<open>world\<close> that is threaded through every statement and survives
  an exception.
\<close>

datatype error =
    KeyError string
  | IndexError
  | AttributeError string
  | ValueError string
  | ImportError string
  | SystemExit
  | LibraryError string

type_synonym addr = nat

text \<open>A marker argument as Python passes it: the integer id, or the whole (id, dimension) pair.\<close>

datatype pyval = IntV int | PairV "int \<times> int"

record mesh =
  mesh_file :: string
  gdim :: nat

datatype fspace =
  FSpace (fs_mesh: mesh) (family: string) (degree: nat) (subspaces: "fspace list")

definition FunctionSpace :: "mesh \<Rightarrow> string \<Rightarrow> nat \<Rightarrow> fspace" where
  "FunctionSpace m fam deg = FSpace m fam deg []"

definition VectorFunctionSpace :: "mesh \<Rightarrow> string \<Rightarrow> nat \<Rightarrow> fspace" where
  "VectorFunctionSpace m fam deg = FSpace m fam deg (replicate (gdim m) (FSpace m fam deg []))"

definition num_sub_spaces :: "fspace \<Rightarrow> nat" where
  "num_sub_spaces W = length (subspaces W)"

text \<open>\<^verbatim>\<open>W.sub(i)\<close>: the i-th sub-space; dolfin raises when there is none.\<close>

definition sub :: "fspace \<Rightarrow> nat \<Rightarrow> error + fspace" where
  "sub W i = (if i < length (subspaces W) then Inr (subspaces W ! i)
              else Inl (LibraryError ''sub''))"

datatype fval = Zero | Scalar real | Dofs "real list" | Mixed fval fval

datatype func = Function (function_space: fspace) (fname: "string option") (fvalue: fval)

datatype const = Constant (cvalue: fval) (cname: "string option")

datatype obj = Fn func | Cn const

fun set_value :: "fval \<Rightarrow> obj \<Rightarrow> obj" where
  "set_value v (Fn f) = Fn (Function (function_space f) (fname f) v)"
| "set_value v (Cn c) = Cn (Constant v (cname c))"

fun get_value :: "obj \<Rightarrow> fval" where
  "get_value (Fn f) = fvalue f"
| "get_value (Cn c) = cvalue c"

type_synonym line = "string \<times> real"

record world =
  heap :: "obj list"
  annotate :: bool
  out :: "line list"

type_synonym 'a io = "world \<Rightarrow> (error + 'a) \<times> world"

definition return_io :: "'a \<Rightarrow> 'a io" where
  "return_io x w = (Inr x, w)"

definition raise :: "error \<Rightarrow> 'a io" where
  "raise e w = (Inl e, w)"

definition lift :: "error + 'a \<Rightarrow> 'a io" where
  "lift r w = (r, w)"

text \<open>Sequencing of two statements: the second runs only when the first did not raise.\<close>

definition bind_io :: "'a io \<Rightarrow> ('a \<Rightarrow> 'b io) \<Rightarrow> 'b io" where
  "bind_io m f w = (case m w of (Inl e, w') \<Rightarrow> (Inl e, w') | (Inr x, w') \<Rightarrow> f x w')"

text \<open>
  A call into a library reads and writes the objects only: the module flag is set by
  the script, and \<open>out\<close> holds the lines of the script's own \<^verbatim>\<open>print\<close> statements.
\<close>

type_synonym 'a lib = "obj list \<Rightarrow> (error + 'a) \<times> obj list"

definition call :: "'a lib \<Rightarrow> 'a io" where
  "call f w = (case f (heap w) of (r, h) \<Rightarrow> (r, w\<lparr>heap := h\<rparr>))"

text \<open>A constructor call that creates a mutable object: the new object's address is returned.\<close>

definition new :: "obj \<Rightarrow> addr io" where
  "new x w = (Inr (length (heap w)), w\<lparr>heap := heap w @ [x]\<rparr>)"

text \<open>
  \<^verbatim>\<open>f.assign(v)\<close> overwrites the value of the object at address \<open>a\<close> in place. Addresses
  come from \<open>new\<close> only, so they are in range; out of range nothing is written.
\<close>

definition assign_heap :: "obj list \<Rightarrow> addr \<Rightarrow> fval \<Rightarrow> obj list" where
  "assign_heap h a v = (if a < length h then h[a := set_value v (h ! a)] else h)"

definition assign :: "addr \<Rightarrow> fval \<Rightarrow> unit io" where
  "assign a v w = (Inr (), w\<lparr>heap := assign_heap (heap w) a v\<rparr>)"

definition print :: "line \<Rightarrow> unit io" where
  "print l w = (Inr (), w\<lparr>out := out w @ [l]\<rparr>)"

text \<open>\<^verbatim>\<open>d[k]\<close> on a dict and \<^verbatim>\<open>xs[i]\<close> on a list raise on a missing key or index.\<close>

definition getitem :: "(string \<rightharpoonup> 'v) \<Rightarrow> string \<Rightarrow> error + 'v" where
  "getitem d k = (case d k of None \<Rightarrow> Inl (KeyError k) | Some v \<Rightarrow> Inr v)"

definition index :: "'a list \<Rightarrow> nat \<Rightarrow> error + 'a" where
  "index xs i = (if i < length xs then Inr (xs ! i) else Inl IndexError)"

section \<open>The object graph of the external libraries\<close>

text \<open>
  The classes of the libraries that the scripts instantiate. A constructor is modelled as
  storing its arguments: \<^verbatim>\<open>pulse.NeumannBC(traction=t, marker=m, name=n)\<close> is
  \<open>NeumannBC t m n\<close>. Functions and constants, which the scripts and the libraries
  assign to after they are shared, live in the heap and are referred to by address, so
  that the control and the parameter \<^verbatim>\<open>a\<close> of the material are one object.
\<close>

record geometry =
  mesh :: mesh
  ffun :: nat
  markers :: "string \<rightharpoonup> int \<times> int"
  f0 :: func
  s0 :: func
  n0 :: func

datatype param = Num real | Ref addr

datatype material =
  HolzapfelOgden (activation: addr) (parameters: "string \<rightharpoonup> param")
    (m_f0: addr) (m_s0: addr) (m_n0: addr)

datatype neumann_bc = NeumannBC (traction: addr) (n_marker: pyval) (n_name: string)

datatype robin_bc = RobinBC (r_value: addr) (r_marker: pyval)

datatype dirichlet_bc =
  DirichletBC (d_space: fspace) (d_value: const) (d_ffun: nat) (d_marker: pyval)

datatype boundary_conditions =
  BoundaryConditions (dirichlet: "(fspace \<Rightarrow> error + dirichlet_bc) list")
    (neumann: "neumann_bc list") (robin: "robin_bc list")

datatype problem =
  Problem (geometry: geometry) (material: material) (bcs: boundary_conditions) (state: addr)

datatype measure = Measure mesh pyval

datatype ufl = Sub addr nat

text \<open>\<^verbatim>\<open>geometry.ds(marker)\<close>: the surface measure restricted to the given subdomain.\<close>

definition ds :: "geometry \<Rightarrow> pyval \<Rightarrow> measure" where
  "ds g m = Measure (mesh g) m"

datatype volume_observation =
  VolumeObservation (vo_mesh: mesh) (dmu: measure) (description: "string option")

datatype optimization_target =
  OptimizationTarget (ot_data: "real list") (ot_model: volume_observation)
    (collect: "bool option")

datatype boundary_observation = BoundaryObservation (bo_bc: neumann_bc) (bo_data: "real list")

text \<open>The \<^verbatim>\<open>targets\<close> argument is a list in the demo and a single target in the test.\<close>

datatype targets = OneTarget optimization_target | TargetList "optimization_target list"

datatype assimilator =
  Assimilator (a_problem: problem) (a_targets: targets) (a_bcs: boundary_observation)
    (a_control: addr)

record assimilation_result =
  optimal_control :: real

text \<open>
  What the scripts call in the libraries without building it themselves. None of it is
  in the repository, so every theorem below holds for any such record.
\<close>

record ext =
  mesh_paths :: "string \<rightharpoonup> string"
  from_file :: "string \<Rightarrow> error + geometry"
  default_parameters :: "string \<rightharpoonup> param"
  state_space :: "geometry \<Rightarrow> fspace"
  assimilate :: "assimilator \<Rightarrow> assimilation_result lib"
  solve :: "problem \<Rightarrow> unit lib"
  cavity_volume :: "geometry \<Rightarrow> ufl \<Rightarrow> real lib"
  observe :: "volume_observation \<Rightarrow> addr \<Rightarrow> real list lib"
  import_IPython :: "unit lib"
  embed :: "unit lib"

text \<open>
  \<^verbatim>\<open>pulse.MechanicsProblem(geometry, material, bcs)\<close> owns the state of the forward
  model, a function on the library's mixed displacement-pressure space.
\<close>

definition MechanicsProblem ::
  "ext \<Rightarrow> geometry \<Rightarrow> material \<Rightarrow> boundary_conditions \<Rightarrow> problem io" where
  "MechanicsProblem ext g m b =
     bind_io (new (Fn (Function (state_space ext g) None Zero))) (\<lambda>st.
     return_io (Problem g m b st))"

text \<open>
  \<^verbatim>\<open>u, p = dolfin.split(problem.state)\<close>: the two components of the mixed state,
  as expressions that refer to the state object.
\<close>

definition split :: "addr \<Rightarrow> ufl \<times> ufl" where
  "split a = (Sub a 0, Sub a 1)"

text \<open>\<^verbatim>\<open>problem.material.a\<close>: the parameter \<^verbatim>\<open>a\<close> of the material, which must be an object to assign to.\<close>

definition material_a :: "material \<Rightarrow> error + addr" where
  "material_a m =
     (case parameters m ''a'' of
        Some (Ref r) \<Rightarrow> Inr r
      | _ \<Rightarrow> Inl (AttributeError ''a''))"

section \<open>demo.py\<close>

text \<open>The closure \<^verbatim>\<open>fix_basal_plane\<close> of \<^verbatim>\<open>create_problem\<close>, with the geometry it captures.\<close>

definition fix_basal_plane :: "geometry \<Rightarrow> fspace \<Rightarrow> error + dirichlet_bc" where
  "fix_basal_plane g W =
     (case sub W 0 of
        Inl e \<Rightarrow> Inl e
      | Inr W0 \<Rightarrow>
          let V = (if num_sub_spaces W0 = 0 then W else W0) in
          (case sub V 0 of
             Inl e \<Rightarrow> Inl e
           | Inr V0 \<Rightarrow>
               (case getitem (markers g) ''BASE'' of
                  Inl e \<Rightarrow> Inl e
                | Inr b \<Rightarrow>
                    Inr (DirichletBC V0 (Constant (Scalar 0.0) (Some ''fix_base''))
                           (ffun g) (IntV (fst b))))))"

definition create_problem :: "ext \<Rightarrow> (problem \<times> addr) io" where
  "create_problem ext =
     bind_io (lift (getitem (mesh_paths ext) ''simple_ellipsoid'')) (\<lambda>path.
     bind_io (lift (from_file ext path)) (\<lambda>g.
     bind_io (new (Fn (Function (FunctionSpace (mesh g) ''R'' 0) (Some ''activation'') Zero)))
       (\<lambda>activation'.
     bind_io (assign activation' (Scalar 0.0)) (\<lambda>_.
     let matparams = default_parameters ext;
         V = FunctionSpace (mesh g) ''R'' 0 in
     bind_io (new (Fn (Function V None Zero))) (\<lambda>control.
     bind_io (assign control (Scalar 1.0)) (\<lambda>_.
     let matparams = matparams(''a'' \<mapsto> Ref control) in
     bind_io (new (Fn (Function (function_space (f0 g)) None Zero))) (\<lambda>f0'.
     bind_io (assign f0' (fvalue (f0 g))) (\<lambda>_.
     bind_io (new (Fn (Function (function_space (s0 g)) None Zero))) (\<lambda>s0'.
     bind_io (assign s0' (fvalue (s0 g))) (\<lambda>_.
     bind_io (new (Fn (Function (function_space (n0 g)) None Zero))) (\<lambda>n0'.
     bind_io (assign n0' (fvalue (n0 g))) (\<lambda>_.
     let material' = HolzapfelOgden activation' matparams f0' s0' n0' in
     bind_io (new (Cn (Constant (Scalar 0.0) (Some ''lvp'')))) (\<lambda>lvp.
     bind_io (lift (getitem (markers g) ''ENDO'')) (\<lambda>endo.
     let lv_marker = IntV (fst endo);
         lv_pressure = NeumannBC lvp lv_marker ''lv'';
         neumann_bc = [lv_pressure];
         base_spring = 1.0 in
     bind_io (new (Cn (Constant (Scalar base_spring) (Some ''base_spring'')))) (\<lambda>spring.
     bind_io (lift (getitem (markers g) ''BASE'')) (\<lambda>base.
     let robin_bc = [RobinBC spring (IntV (fst base))];
         dirichlet_bc = [fix_basal_plane g];
         bcs' = BoundaryConditions dirichlet_bc neumann_bc robin_bc in
     bind_io (MechanicsProblem ext g material' bcs') (\<lambda>problem.
     return_io (problem, control))))))))))))))))))"

definition set_annotate :: "bool \<Rightarrow> unit io" where
  "set_annotate b w = (Inr (), w\<lparr>annotate := b\<rparr>)"

definition demo_main :: "ext \<Rightarrow> unit io" where
  "demo_main ext =
     bind_io (set_annotate True) (\<lambda>_.
     bind_io (create_problem ext) (\<lambda>(problem, control).
     let pressure_data = [0.1];
         volume_data = [2.8] in
     bind_io (lift (getitem (markers (geometry problem)) ''ENDO'')) (\<lambda>m.
     let endo = IntV (fst m);
         volume_model = VolumeObservation (mesh (geometry problem))
                          (ds (geometry problem) endo) None;
         volume_target = OptimizationTarget volume_data volume_model None in
     bind_io (lift (index (neumann (bcs problem)) 0)) (\<lambda>bc0.
     let pressure_obs = BoundaryObservation bc0 pressure_data;
         assimilator' = Assimilator problem (TargetList [volume_target]) pressure_obs control in
     bind_io (call (assimilate ext assimilator')) (\<lambda>optimal.
     bind_io (lift (material_a (material problem))) (\<lambda>a.
     bind_io (assign a (Scalar (optimal_control optimal))) (\<lambda>_.
     bind_io (call (solve ext problem)) (\<lambda>_.
     let (u, p) = split (state problem) in
     bind_io (call (cavity_volume ext (geometry problem) u)) (\<lambda>volume.
     bind_io (lift (index volume_data 0)) (\<lambda>v0.
     bind_io (print (''Target volume: '', v0)) (\<lambda>_.
     bind_io (print (''Model volume: '', volume)) (\<lambda>_.
     print (''Estimated material parameters '', optimal_control optimal)))))))))))))"

section \<open>test_assimilator.py\<close>

text \<open>
  The test takes its problem from \<^verbatim>\<open>fixtures.create_problem\<close>, a module that is not
  among the sources: it is the parameter \<open>fixtures_create_problem\<close>.
\<close>

definition test_main :: "ext \<Rightarrow> (problem \<times> addr) io \<Rightarrow> unit io" where
  "test_main ext fixtures_create_problem =
     bind_io fixtures_create_problem (\<lambda>(problem, control).
     let geo = geometry problem;
         V_cg2 = VectorFunctionSpace (mesh geo) ''CG'' 2 in
     bind_io (new (Fn (Function V_cg2 None Zero))) (\<lambda>u.
     bind_io (lift (getitem (markers geo) ''ENDO'')) (\<lambda>m.
     let volume_obs = VolumeObservation (mesh geo) (ds geo (PairV m)) (Some ''Test LV volume'') in
     bind_io (call (observe ext volume_obs u)) (\<lambda>local.
     bind_io (lift (index local 0)) (\<lambda>model_volume.
     bind_io (print ('''', model_volume)) (\<lambda>_.
     let volumes = [2.7, 2.9];
         target = OptimizationTarget volumes volume_obs (Some True);
         lvp = [0.5, 1.0] in
     bind_io (lift (index (neumann (bcs problem)) 0)) (\<lambda>bc0.
     let bcs' = BoundaryObservation bc0 lvp;
         assimilator' = Assimilator problem (OneTarget target) bcs' control in
     bind_io (call (assimilate ext assimilator')) (\<lambda>_.
     bind_io (call (import_IPython ext)) (\<lambda>_.
     bind_io (call (embed ext)) (\<lambda>_.
     raise SystemExit))))))))))"

section \<open>What a run builds, written out\<close>

text \<open>
  The eight objects \<^verbatim>\<open>create_problem\<close> creates, in the order of creation and with the
  values they hold when it returns, and the problem it returns when the first new object
  gets the address \<open>n\<close>.
\<close>

definition created :: "ext \<Rightarrow> geometry \<Rightarrow> obj list" where
  "created ext g =
     [Fn (Function (FunctionSpace (mesh g) ''R'' 0) (Some ''activation'') (Scalar 0)),
      Fn (Function (FunctionSpace (mesh g) ''R'' 0) None (Scalar 1)),
      Fn (Function (function_space (f0 g)) None (fvalue (f0 g))),
      Fn (Function (function_space (s0 g)) None (fvalue (s0 g))),
      Fn (Function (function_space (n0 g)) None (fvalue (n0 g))),
      Cn (Constant (Scalar 0) (Some ''lvp'')),
      Cn (Constant (Scalar 1) (Some ''base_spring'')),
      Fn (Function (state_space ext g) None Zero)]"

definition built :: "ext \<Rightarrow> geometry \<Rightarrow> nat \<Rightarrow> int \<times> int \<Rightarrow> int \<times> int \<Rightarrow> problem" where
  "built ext g n en ba =
     Problem g
       (HolzapfelOgden n ((default_parameters ext)(''a'' \<mapsto> Ref (n + 1))) (n + 2) (n + 3) (n + 4))
       (BoundaryConditions [fix_basal_plane g]
          [NeumannBC (n + 5) (IntV (fst en)) ''lv'']
          [RobinBC (n + 6) (IntV (fst ba))])
       (n + 7)"

text \<open>The assimilator of lines 85 to 97 of the demo, and its lines 99 to 108.\<close>

definition demo_assimilator :: "problem \<Rightarrow> addr \<Rightarrow> int \<times> int \<Rightarrow> neumann_bc \<Rightarrow> assimilator" where
  "demo_assimilator p c en bc0 =
     Assimilator p
       (TargetList [OptimizationTarget [2.8]
          (VolumeObservation (mesh (geometry p)) (Measure (mesh (geometry p)) (IntV (fst en))) None)
          None])
       (BoundaryObservation bc0 [0.1]) c"

definition report :: "ext \<Rightarrow> problem \<Rightarrow> addr \<Rightarrow> assimilator \<Rightarrow> unit io" where
  "report ext p c A w =
     (case assimilate ext A (heap w) of
        (Inl e, h2) \<Rightarrow> (Inl e, w\<lparr>heap := h2\<rparr>)
      | (Inr res, h2) \<Rightarrow>
          (case solve ext p (assign_heap h2 c (Scalar (optimal_control res))) of
             (Inl e, h3) \<Rightarrow> (Inl e, w\<lparr>heap := h3\<rparr>)
           | (Inr _, h3) \<Rightarrow>
               (case cavity_volume ext (geometry p) (Sub (state p) 0) h3 of
                  (Inl e, h4) \<Rightarrow> (Inl e, w\<lparr>heap := h4\<rparr>)
                | (Inr vol, h4) \<Rightarrow>
                    (Inr (), w\<lparr>heap := h4,
                       out := out w @ [(''Target volume: '', 2.8), (''Model volume: '', vol),
                         (''Estimated material parameters '', optimal_control res)]\<rparr>))))"

text \<open>
  The objects of the test script: the zero displacement, the volume observation and the
  assimilator it builds, and its lines 36 to 42.
\<close>

definition test_u :: "problem \<Rightarrow> obj" where
  "test_u p = Fn (Function (VectorFunctionSpace (mesh (geometry p)) ''CG'' 2) None Zero)"

definition test_volume_obs :: "problem \<Rightarrow> int \<times> int \<Rightarrow> volume_observation" where
  "test_volume_obs p m =
     VolumeObservation (mesh (geometry p)) (Measure (mesh (geometry p)) (PairV m))
       (Some ''Test LV volume'')"

definition test_assimilator ::
  "problem \<Rightarrow> addr \<Rightarrow> int \<times> int \<Rightarrow> neumann_bc \<Rightarrow> assimilator" where
  "test_assimilator p c m bc0 =
     Assimilator p (OneTarget (OptimizationTarget [2.7, 2.9] (test_volume_obs p m) (Some True)))
       (BoundaryObservation bc0 [0.5, 1.0]) c"

definition interact :: "ext \<Rightarrow> assimilator \<Rightarrow> unit io" where
  "interact ext A w =
     (case assimilate ext A (heap w) of
        (Inl e, h3) \<Rightarrow> (Inl e, w\<lparr>heap := h3\<rparr>)
      | (Inr _, h3) \<Rightarrow>
          (case import_IPython ext h3 of
             (Inl e, h4) \<Rightarrow> (Inl e, w\<lparr>heap := h4\<rparr>)
           | (Inr _, h4) \<Rightarrow>
               (case embed ext h4 of
                  (Inl e, h5) \<Rightarrow> (Inl e, w\<lparr>heap := h5\<rparr>)
                | (Inr _, h5) \<Rightarrow> (Inl SystemExit, w\<lparr>heap := h5\<rparr>))))"

section \<open>A concrete run\<close>

text \<open>
  A small instance of the libraries for evaluating the scripts: the simple ellipsoid with
  its three facet markers, an optimiser that answers 2 and a solver that writes a fixed
  state.
\<close>

definition mesh0 :: mesh where
  "mesh0 = \<lparr>mesh_file = ''simple_ellipsoid.h5'', gdim = 3\<rparr>"

definition geometry0 :: geometry where
  "geometry0 = \<lparr>mesh = mesh0, ffun = 0,
     markers = [''BASE'' \<mapsto> (10, 2), ''ENDO'' \<mapsto> (30, 2), ''EPI'' \<mapsto> (40, 2)],
     f0 = Function (VectorFunctionSpace mesh0 ''Quadrature'' 4) (Some ''fiber'') (Dofs [1, 0, 0]),
     s0 = Function (VectorFunctionSpace mesh0 ''Quadrature'' 4) (Some ''sheet'') (Dofs [0, 1, 0]),
     n0 = Function (VectorFunctionSpace mesh0 ''Quadrature'' 4) (Some ''sheet_normal'')
            (Dofs [0, 0, 1])\<rparr>"

definition ext0 :: ext where
  "ext0 = \<lparr>
     mesh_paths = [''simple_ellipsoid'' \<mapsto> ''simple_ellipsoid.h5''],
     from_file = (\<lambda>path. if path = ''simple_ellipsoid.h5'' then Inr geometry0
                          else Inl (LibraryError ''file not found'')),
     default_parameters = [''a'' \<mapsto> Num 2.28, ''b'' \<mapsto> Num 9.726],
     state_space = (\<lambda>g. FSpace (mesh g) ''Mixed'' 0
                       [VectorFunctionSpace (mesh g) ''CG'' 2, FunctionSpace (mesh g) ''CG'' 1]),
     assimilate = (\<lambda>a h. (Inr \<lparr>optimal_control = 2\<rparr>, h)),
     solve = (\<lambda>p h. (Inr (), assign_heap h (state p) (Mixed (Dofs [0.1]) (Dofs [0.2])))),
     cavity_volume = (\<lambda>g u h. (Inr 2.8, h)),
     observe = (\<lambda>vo u h. (Inr [2.5], h)),
     import_IPython = (\<lambda>h. (Inr (), h)),
     embed = (\<lambda>h. (Inr (), h))\<rparr>"

definition world0 :: world where
  "world0 = \<lparr>heap = [], annotate = False, out = []\<rparr>"

definition problem0 :: problem where
  "problem0 = built ext0 geometry0 0 (30, 2) (10, 2)"

definition world1 :: world where
  "world1 = \<lparr>heap = created ext0 geometry0, annotate = False, out = []\<rparr>"

text \<open>The world the demo leaves on this instance.\<close>

definition world2 :: world where
  "world2 = \<lparr>heap = assign_heap (assign_heap (created ext0 geometry0) 1 (Scalar 2)) 7
                        (Mixed (Dofs [0.1]) (Dofs [0.2])),
              annotate = True,
              out = [(''Target volume: '', 2.8), (''Model volume: '', 2.8),
                     (''Estimated material parameters '', 2)]\<rparr>"

text \<open>Libraries that fail: no mesh file, an optimiser that fails, a solver that fails.\<close>

definition ext_no_mesh :: ext where
  "ext_no_mesh = ext0\<lparr>from_file := (\<lambda>path. Inl (LibraryError ''file not found''))\<rparr>"

definition ext_no_optimum :: ext where
  "ext_no_optimum = ext0\<lparr>assimilate := (\<lambda>A h. (Inl (LibraryError ''optimizer failed''), h))\<rparr>"

definition ext_no_solution :: ext where
  "ext_no_solution = ext0\<lparr>solve := (\<lambda>p h. (Inl (LibraryError ''no convergence''), h))\<rparr>"

text \<open>A library whose surface measure takes one integer subdomain id and rejects a pair.\<close>

definition integer_subdomain :: "volume_observation \<Rightarrow> bool" where
  "integer_subdomain vo = (case dmu vo of Measure _ (IntV _) \<Rightarrow> True | Measure _ (PairV _) \<Rightarrow> False)"

definition target_list :: "targets \<Rightarrow> optimization_target list" where
  "target_list ts = (case ts of OneTarget t \<Rightarrow> [t] | TargetList l \<Rightarrow> l)"

definition ext_int_only :: ext where
  "ext_int_only = ext0\<lparr>
     assimilate := (\<lambda>A h. if list_all (\<lambda>t. integer_subdomain (ot_model t)) (target_list (a_targets A))
                           then (Inr \<lparr>optimal_control = 2\<rparr>, h)
                           else (Inl (ValueError ''subdomain is a pair''), h)),
     observe := (\<lambda>vo u h. if integer_subdomain vo then (Inr [2.5], h)
                           else (Inl (ValueError ''subdomain is a pair''), h))\<rparr>"

text \<open>
  More libraries that fail, one for each statement of the scripts that can raise, and two
  fixtures: one whose geometry has no markers and one whose problem has no Neumann
  condition.
\<close>

definition ext_no_path :: ext where
  "ext_no_path = ext0\<lparr>mesh_paths := Map.empty\<rparr>"

definition ext_no_endo :: ext where
  "ext_no_endo = ext0\<lparr>from_file := (\<lambda>path. Inr (geometry0\<lparr>markers := [''BASE'' \<mapsto> (10, 2)]\<rparr>))\<rparr>"

definition ext_no_base :: ext where
  "ext_no_base = ext0\<lparr>from_file := (\<lambda>path. Inr (geometry0\<lparr>markers := [''ENDO'' \<mapsto> (30, 2)]\<rparr>))\<rparr>"

definition ext_no_volume :: ext where
  "ext_no_volume = ext0\<lparr>cavity_volume := (\<lambda>g u h. (Inl (LibraryError ''no volume''), h))\<rparr>"

definition ext_no_reading :: ext where
  "ext_no_reading = ext0\<lparr>observe := (\<lambda>vo u h. (Inr [], h))\<rparr>"

definition ext_no_ipython :: ext where
  "ext_no_ipython = ext0\<lparr>import_IPython := (\<lambda>h. (Inl (ImportError ''IPython''), h))\<rparr>"

definition ext_no_shell :: ext where
  "ext_no_shell = ext0\<lparr>embed := (\<lambda>h. (Inl (LibraryError ''no terminal''), h))\<rparr>"

definition fx_no_endo :: "(problem \<times> addr) io" where
  "fx_no_endo =
     return_io (Problem (geometry0\<lparr>markers := Map.empty\<rparr>) (material problem0) (bcs problem0) 7, 1)"

definition fx_no_neumann :: "(problem \<times> addr) io" where
  "fx_no_neumann =
     return_io (Problem geometry0 (material problem0) (BoundaryConditions [] [] []) 7, 1)"

section \<open>Stepping through a script\<close>

lemma bind_io_Inr:
  "bind_io m f w = (Inr y, w') \<longleftrightarrow> (\<exists>x w1. m w = (Inr x, w1) \<and> f x w1 = (Inr y, w'))"
  by (auto simp: bind_io_def split: prod.splits sum.splits)

lemma bind_io_Inl:
  "bind_io m f w = (Inl e, w') \<longleftrightarrow>
     m w = (Inl e, w') \<or> (\<exists>x w1. m w = (Inr x, w1) \<and> f x w1 = (Inl e, w'))"
  by (auto simp: bind_io_def split: prod.splits sum.splits)

lemma new_assign:
  "bind_io (new x) (\<lambda>a. bind_io (assign a v) (\<lambda>_. k a)) w =
     k (length (heap w)) (w\<lparr>heap := heap w @ [set_value v x]\<rparr>)"
  by (simp add: bind_io_def new_def assign_def assign_heap_def)

lemma new_step: "bind_io (new x) k w = k (length (heap w)) (w\<lparr>heap := heap w @ [x]\<rparr>)"
  by (simp add: bind_io_def new_def)

lemma lift_step:
  "bind_io (lift r) k w = (case r of Inl e \<Rightarrow> (Inl e, w) | Inr x \<Rightarrow> k x w)"
  by (simp add: bind_io_def lift_def split: sum.splits)

lemma call_step:
  "bind_io (call f) k w =
     (case f (heap w) of (Inl e, h) \<Rightarrow> (Inl e, w\<lparr>heap := h\<rparr>) | (Inr x, h) \<Rightarrow> k x (w\<lparr>heap := h\<rparr>))"
  by (simp add: bind_io_def call_def split: prod.splits sum.splits)

lemma assign_step:
  "bind_io (assign a v) k w = k () (w\<lparr>heap := assign_heap (heap w) a v\<rparr>)"
  by (simp add: bind_io_def assign_def)

lemma print_step: "bind_io (print l) k w = k () (w\<lparr>out := out w @ [l]\<rparr>)"
  by (simp add: bind_io_def print_def)

lemma index_0: "index xs 0 = (case xs of [] \<Rightarrow> Inl IndexError | x # _ \<Rightarrow> Inr x)"
  by (cases xs) (simp_all add: index_def)

lemma assign_heap_length: "length (assign_heap h a v) = length h"
  by (simp add: assign_heap_def)

lemma assign_heap_other: "i \<noteq> a \<Longrightarrow> assign_heap h a v ! i = h ! i"
  by (simp add: assign_heap_def)

lemma assign_heap_same: "a < length h \<Longrightarrow> get_value (assign_heap h a v ! a) = v"
  by (cases "h ! a") (simp_all add: assign_heap_def)

text \<open>Every path through \<^verbatim>\<open>create_problem\<close>, with the objects that exist when it ends.\<close>

lemma create_problem_eq:
  "create_problem ext w =
     (case mesh_paths ext ''simple_ellipsoid'' of
        None \<Rightarrow> (Inl (KeyError ''simple_ellipsoid''), w)
      | Some path \<Rightarrow>
          (case from_file ext path of
             Inl e \<Rightarrow> (Inl e, w)
           | Inr g \<Rightarrow>
               (case markers g ''ENDO'' of
                  None \<Rightarrow> (Inl (KeyError ''ENDO''), w\<lparr>heap := heap w @ take 6 (created ext g)\<rparr>)
                | Some en \<Rightarrow>
                    (case markers g ''BASE'' of
                       None \<Rightarrow> (Inl (KeyError ''BASE''), w\<lparr>heap := heap w @ take 7 (created ext g)\<rparr>)
                     | Some ba \<Rightarrow>
                         (Inr (built ext g (length (heap w)) en ba, length (heap w) + 1),
                          w\<lparr>heap := heap w @ created ext g\<rparr>)))))"
  unfolding create_problem_def Let_def new_assign new_step lift_step MechanicsProblem_def
  by (simp add: getitem_def return_io_def created_def built_def bind_io_def new_def
      eval_nat_numeral split: option.splits sum.splits)

lemma create_problem_Inr:
  assumes "create_problem ext w = (Inr (p, c), w')"
  shows "\<exists>path g en ba. mesh_paths ext ''simple_ellipsoid'' = Some path
           \<and> from_file ext path = Inr g
           \<and> markers g ''ENDO'' = Some en \<and> markers g ''BASE'' = Some ba
           \<and> p = built ext g (length (heap w)) en ba \<and> c = length (heap w) + 1
           \<and> w' = w\<lparr>heap := heap w @ created ext g\<rparr>"
  using assms unfolding create_problem_eq
  by (auto split: option.splits sum.splits)

lemma create_problem_returns:
  assumes "mesh_paths ext ''simple_ellipsoid'' = Some path" and "from_file ext path = Inr g"
    and "markers g ''ENDO'' = Some en" and "markers g ''BASE'' = Some ba"
  shows "create_problem ext w =
           (Inr (built ext g (length (heap w)) en ba, length (heap w) + 1),
            w\<lparr>heap := heap w @ created ext g\<rparr>)"
  using assms by (simp add: create_problem_eq)

lemma create_problem_ext0: "create_problem ext0 world0 = (Inr (problem0, 1), world1)"
  by (simp add: create_problem_eq ext0_def geometry0_def world0_def world1_def problem0_def)

text \<open>Every path through the \<^verbatim>\<open>main\<close> of the demo.\<close>

lemma demo_main_eq:
  "demo_main ext w =
     (case mesh_paths ext ''simple_ellipsoid'' of
        None \<Rightarrow> (Inl (KeyError ''simple_ellipsoid''), w\<lparr>annotate := True\<rparr>)
      | Some path \<Rightarrow>
          (case from_file ext path of
             Inl e \<Rightarrow> (Inl e, w\<lparr>annotate := True\<rparr>)
           | Inr g \<Rightarrow>
               (case markers g ''ENDO'' of
                  None \<Rightarrow> (Inl (KeyError ''ENDO''),
                            w\<lparr>heap := heap w @ take 6 (created ext g), annotate := True\<rparr>)
                | Some en \<Rightarrow>
                    (case markers g ''BASE'' of
                       None \<Rightarrow> (Inl (KeyError ''BASE''),
                                 w\<lparr>heap := heap w @ take 7 (created ext g), annotate := True\<rparr>)
                     | Some ba \<Rightarrow>
                         report ext (built ext g (length (heap w)) en ba) (length (heap w) + 1)
                           (demo_assimilator (built ext g (length (heap w)) en ba)
                              (length (heap w) + 1) en
                              (NeumannBC (length (heap w) + 5) (IntV (fst en)) ''lv''))
                           (w\<lparr>heap := heap w @ created ext g, annotate := True\<rparr>)))))"
  unfolding demo_main_def
  apply (simp add: bind_io_def [of "set_annotate True"] set_annotate_def)
  apply (simp add: bind_io_def [of "create_problem ext"] create_problem_eq
      split: option.splits sum.splits)
  apply (simp add: Let_def lift_step call_step assign_step print_step index_0 getitem_def
      built_def material_a_def split_def demo_assimilator_def report_def ds_def print_def
      split: option.splits sum.splits prod.splits)
  done

section \<open>The problem builder\<close>

text \<open>
  C9. For a function space \<open>W\<close> that has a first sub-space \<open>W.sub(0)\<close>, the closure
  \<^verbatim>\<open>fix_basal_plane\<close> returns a Dirichlet condition with value zero on the facets marked
  BASE (by the integer id of the marker), on sub-component 0 of \<open>V\<close>, where \<open>V\<close> is \<open>W\<close>
  itself when \<open>W.sub(0)\<close> has no sub-spaces and \<open>W.sub(0)\<close> otherwise; \<open>V\<close> has a
  sub-component 0 in both cases.
\<close>

theorem fix_basal_plane_both_spaces:
  assumes "sub W 0 = Inr W0" and "markers g ''BASE'' = Some b"
  shows "0 < num_sub_spaces (if num_sub_spaces W0 = 0 then W else W0)
       \<and> fix_basal_plane g W =
           Inr (DirichletBC (subspaces (if num_sub_spaces W0 = 0 then W else W0) ! 0)
                  (Constant (Scalar 0) (Some ''fix_base'')) (ffun g) (IntV (fst b)))"
  using assms
  by (auto simp: fix_basal_plane_def sub_def num_sub_spaces_def getitem_def Let_def
      split: if_splits)

theorem fix_basal_plane_both_spaces_witness:
  "sub (state_space ext0 geometry0) 0 = Inr (VectorFunctionSpace mesh0 ''CG'' 2)
   \<and> markers geometry0 ''BASE'' = Some (10, 2)
   \<and> fix_basal_plane geometry0 (state_space ext0 geometry0) =
       Inr (DirichletBC (FSpace mesh0 ''CG'' 2 []) (Constant (Scalar 0) (Some ''fix_base'')) 0
              (IntV 10))
   \<and> sub (VectorFunctionSpace mesh0 ''CG'' 2) 0 = Inr (FSpace mesh0 ''CG'' 2 [])
   \<and> fix_basal_plane geometry0 (VectorFunctionSpace mesh0 ''CG'' 2) =
       Inr (DirichletBC (FSpace mesh0 ''CG'' 2 []) (Constant (Scalar 0) (Some ''fix_base'')) 0
              (IntV 10))"
proof -
  have mixed: "sub (state_space ext0 geometry0) 0 = Inr (VectorFunctionSpace mesh0 ''CG'' 2)"
    by (simp add: sub_def ext0_def geometry0_def)
  have vector: "sub (VectorFunctionSpace mesh0 ''CG'' 2) 0 = Inr (FSpace mesh0 ''CG'' 2 [])"
    by (simp add: sub_def VectorFunctionSpace_def mesh0_def eval_nat_numeral)
  have base: "markers geometry0 ''BASE'' = Some (10, 2)"
    by (simp add: geometry0_def)
  show ?thesis
    using fix_basal_plane_both_spaces [OF mixed base]
      fix_basal_plane_both_spaces [OF vector base] mixed vector base
    by (simp add: num_sub_spaces_def VectorFunctionSpace_def mesh0_def geometry0_def
        eval_nat_numeral)
qed



text \<open>
  C10. Whenever \<^verbatim>\<open>create_problem\<close> returns a pair (problem, control), the control is an
  object of the run, a function on the space ("R", 0) over the mesh of the geometry that
  holds the value 1.0, and it is the parameter \<^verbatim>\<open>a\<close> of the material; the activation of
  the material is another object, a function named "activation" on the space ("R", 0)
  that holds 0.0.
\<close>

theorem create_problem_initial_guess:
  assumes "create_problem ext w = (Inr (p, c), w')"
  shows "c < length (heap w')
       \<and> heap w' ! c = Fn (Function (FunctionSpace (mesh (geometry p)) ''R'' 0) None (Scalar 1.0))
       \<and> parameters (material p) ''a'' = Some (Ref c)
       \<and> activation (material p) < length (heap w')
       \<and> activation (material p) \<noteq> c
       \<and> heap w' ! activation (material p) =
           Fn (Function (FunctionSpace (mesh (geometry p)) ''R'' 0) (Some ''activation'')
                 (Scalar 0.0))"
proof -
  from create_problem_Inr [OF assms] obtain g en ba
    where p: "p = built ext g (length (heap w)) en ba" and c: "c = length (heap w) + 1"
      and w': "w' = w\<lparr>heap := heap w @ created ext g\<rparr>"
    by blast
  show ?thesis
    by (simp add: p c w' built_def created_def nth_append)
qed

theorem create_problem_initial_guess_witness:
  "create_problem ext0 world0 = (Inr (problem0, 1), world1)
   \<and> heap world1 ! 1 = Fn (Function (FunctionSpace mesh0 ''R'' 0) None (Scalar 1))
   \<and> parameters (material problem0) ''a'' = Some (Ref 1)
   \<and> heap world1 ! 0 = Fn (Function (FunctionSpace mesh0 ''R'' 0) (Some ''activation'') (Scalar 0))"
  using create_problem_initial_guess [OF create_problem_ext0] create_problem_ext0
  by (simp add: problem0_def built_def geometry0_def)

section \<open>Every path through the scripts\<close>

lemma test_main_eq:
  "test_main ext fx w =
     (case fx w of
        (Inl e, w1) \<Rightarrow> (Inl e, w1)
      | (Inr (p, c), w1) \<Rightarrow>
          (case markers (geometry p) ''ENDO'' of
             None \<Rightarrow> (Inl (KeyError ''ENDO''), w1\<lparr>heap := heap w1 @ [test_u p]\<rparr>)
           | Some m \<Rightarrow>
               (case observe ext (test_volume_obs p m) (length (heap w1)) (heap w1 @ [test_u p]) of
                  (Inl e, h2) \<Rightarrow> (Inl e, w1\<lparr>heap := h2\<rparr>)
                | (Inr local, h2) \<Rightarrow>
                    (case local of
                       [] \<Rightarrow> (Inl IndexError, w1\<lparr>heap := h2\<rparr>)
                     | model_volume # _ \<Rightarrow>
                         (case neumann (bcs p) of
                            [] \<Rightarrow> (Inl IndexError,
                                    w1\<lparr>heap := h2, out := out w1 @ [('''', model_volume)]\<rparr>)
                          | bc0 # _ \<Rightarrow>
                              interact ext (test_assimilator p c m bc0)
                                (w1\<lparr>heap := h2, out := out w1 @ [('''', model_volume)]\<rparr>))))))"
  unfolding test_main_def
  by (auto simp: bind_io_def [of fx] Let_def new_step lift_step call_step print_step index_0
      getitem_def raise_def ds_def test_u_def test_volume_obs_def test_assimilator_def
      interact_def
      split: option.splits sum.splits prod.splits list.splits)

lemma report_Inr:
  "report ext p c A w = (Inr u, w') \<longleftrightarrow>
     (\<exists>res h2 h3 vol h4. assimilate ext A (heap w) = (Inr res, h2)
        \<and> solve ext p (assign_heap h2 c (Scalar (optimal_control res))) = (Inr (), h3)
        \<and> cavity_volume ext (geometry p) (Sub (state p) 0) h3 = (Inr vol, h4)
        \<and> w' = w\<lparr>heap := h4,
                 out := out w @ [(''Target volume: '', 2.8), (''Model volume: '', vol),
                   (''Estimated material parameters '', optimal_control res)]\<rparr>)"
  by (auto simp: report_def split: prod.splits sum.splits)

lemma report_Inl:
  "report ext p c A w = (Inl e, w') \<Longrightarrow>
     out w' = out w \<and> annotate w' = annotate w
     \<and> ((\<exists>h h'. assimilate ext A h = (Inl e, h'))
        \<or> (\<exists>h h'. solve ext p h = (Inl e, h'))
        \<or> (\<exists>u h h'. cavity_volume ext (geometry p) u h = (Inl e, h')))"
  by (auto simp: report_def split: prod.splits sum.splits)


lemma demo_main_Inr:
  assumes "demo_main ext w = (Inr (), w')"
  shows "\<exists>p c w1 A res h2 h3 vol h4.
           create_problem ext (w\<lparr>annotate := True\<rparr>) = (Inr (p, c), w1)
         \<and> a_problem A = p \<and> a_control A = c
         \<and> assimilate ext A (heap w1) = (Inr res, h2)
         \<and> material_a (material p) = Inr c
         \<and> solve ext p (assign_heap h2 c (Scalar (optimal_control res))) = (Inr (), h3)
         \<and> cavity_volume ext (geometry p) (Sub (state p) 0) h3 = (Inr vol, h4)
         \<and> w' = w1\<lparr>heap := h4,
                  out := out w1 @ [(''Target volume: '', 2.8), (''Model volume: '', vol),
                    (''Estimated material parameters '', optimal_control res)]\<rparr>"
proof -
  from assms obtain path g en ba
    where path: "mesh_paths ext ''simple_ellipsoid'' = Some path"
      and g: "from_file ext path = Inr g"
      and en: "markers g ''ENDO'' = Some en" and ba: "markers g ''BASE'' = Some ba"
      and r: "report ext (built ext g (length (heap w)) en ba) (length (heap w) + 1)
                (demo_assimilator (built ext g (length (heap w)) en ba)
                   (length (heap w) + 1) en
                   (NeumannBC (length (heap w) + 5) (IntV (fst en)) ''lv''))
                (w\<lparr>heap := heap w @ created ext g, annotate := True\<rparr>) = (Inr (), w')"
    unfolding demo_main_eq by (auto split: option.splits sum.splits)
  let ?p = "built ext g (length (heap w)) en ba"
  let ?c = "length (heap w) + 1"
  let ?A = "demo_assimilator ?p ?c en (NeumannBC (length (heap w) + 5) (IntV (fst en)) ''lv'')"
  let ?w1 = "w\<lparr>heap := heap w @ created ext g, annotate := True\<rparr>"
  have cp: "create_problem ext (w\<lparr>annotate := True\<rparr>) = (Inr (?p, ?c), ?w1)"
    using path g en ba by (simp add: create_problem_eq)
  have ma: "material_a (material ?p) = Inr ?c"
    by (simp add: material_a_def built_def)
  from r obtain res h2 h3 vol h4
    where "assimilate ext ?A (heap ?w1) = (Inr res, h2)"
      and "solve ext ?p (assign_heap h2 ?c (Scalar (optimal_control res))) = (Inr (), h3)"
      and "cavity_volume ext (geometry ?p) (Sub (state ?p) 0) h3 = (Inr vol, h4)"
      and "w' = ?w1\<lparr>heap := h4,
                  out := out ?w1 @ [(''Target volume: '', 2.8), (''Model volume: '', vol),
                    (''Estimated material parameters '', optimal_control res)]\<rparr>"
    unfolding report_Inr by blast
  with cp ma have
    "create_problem ext (w\<lparr>annotate := True\<rparr>) = (Inr (?p, ?c), ?w1)
     \<and> a_problem ?A = ?p \<and> a_control ?A = ?c
     \<and> assimilate ext ?A (heap ?w1) = (Inr res, h2)
     \<and> material_a (material ?p) = Inr ?c
     \<and> solve ext ?p (assign_heap h2 ?c (Scalar (optimal_control res))) = (Inr (), h3)
     \<and> cavity_volume ext (geometry ?p) (Sub (state ?p) 0) h3 = (Inr vol, h4)
     \<and> w' = ?w1\<lparr>heap := h4,
                  out := out ?w1 @ [(''Target volume: '', 2.8), (''Model volume: '', vol),
                    (''Estimated material parameters '', optimal_control res)]\<rparr>"
    by (simp add: demo_assimilator_def)
  then show ?thesis by blast
qed

lemma demo_main_ext0: "demo_main ext0 world0 = (Inr (), world2)"
  by (simp add: demo_main_eq report_def ext0_def geometry0_def world0_def world2_def
      demo_assimilator_def built_def)

lemma test_main_ext0:
  "test_main ext0 (create_problem ext0) world0 =
     (Inl SystemExit, world1\<lparr>heap := created ext0 geometry0 @ [test_u problem0],
                              out := [('''', 2.5)]\<rparr>)"
  unfolding test_main_eq create_problem_ext0
  by (simp add: interact_def problem0_def built_def world1_def ext0_def geometry0_def)

section \<open>The assimilation drivers\<close>

text \<open>
  The test script on the concrete run: the optimiser answers 2 and the script ends in
  \<^verbatim>\<open>exit()\<close>, and the control still holds its initial value and the state of the
  problem is still the initial one, although a solve would have changed it. The script
  neither assigns the optimum nor solves again.
\<close>

theorem test_main_leaves_control_counterexample:
  "fst (test_main ext0 (create_problem ext0) world0) = Inl SystemExit
   \<and> fst (assimilate ext0 (test_assimilator problem0 1 (30, 2) (NeumannBC 5 (IntV 30) ''lv''))
            (created ext0 geometry0 @ [test_u problem0])) = Inr \<lparr>optimal_control = 2\<rparr>
   \<and> get_value (heap (snd (test_main ext0 (create_problem ext0) world0)) ! 1) \<noteq> Scalar 2
   \<and> get_value (heap (snd (test_main ext0 (create_problem ext0) world0)) ! state problem0) = Zero
   \<and> get_value (snd (solve ext0 problem0
         (heap (snd (test_main ext0 (create_problem ext0) world0)))) ! state problem0) \<noteq> Zero"
  unfolding test_main_ext0
  by (simp add: created_def problem0_def built_def ext0_def assign_heap_def test_u_def)

text \<open>
  C2, for the demo. In every run of \<^verbatim>\<open>main\<close> of demo.py that returns, once
  \<^verbatim>\<open>assimilate\<close> has returned the result \<open>res\<close> and left the objects \<open>h2\<close>, the script
  assigns the optimal control value to the parameter \<^verbatim>\<open>a\<close> of the material, which is the
  control object \<open>c\<close>: no object is created or removed, every object other than \<open>c\<close> is
  as \<^verbatim>\<open>assimilate\<close> left it, and \<open>c\<close> holds the optimum. The problem is then solved on
  these objects, the cavity volume is computed from component 0 of its state, and the
  three lines are printed after that.
\<close>

theorem demo_main_assigns_control_and_resolves:
  assumes "demo_main ext w = (Inr (), w')"
  shows "\<exists>p c w1 A res h2 h3 vol h4.
           create_problem ext (w\<lparr>annotate := True\<rparr>) = (Inr (p, c), w1)
         \<and> a_problem A = p \<and> a_control A = c
         \<and> assimilate ext A (heap w1) = (Inr res, h2)
         \<and> material_a (material p) = Inr c
         \<and> length (assign_heap h2 c (Scalar (optimal_control res))) = length h2
         \<and> (\<forall>i. i \<noteq> c \<longrightarrow> assign_heap h2 c (Scalar (optimal_control res)) ! i = h2 ! i)
         \<and> (c < length h2 \<longrightarrow>
              get_value (assign_heap h2 c (Scalar (optimal_control res)) ! c)
                = Scalar (optimal_control res))
         \<and> solve ext p (assign_heap h2 c (Scalar (optimal_control res))) = (Inr (), h3)
         \<and> cavity_volume ext (geometry p) (Sub (state p) 0) h3 = (Inr vol, h4)
         \<and> heap w' = h4
         \<and> out w' = out w1 @ [(''Target volume: '', 2.8), (''Model volume: '', vol),
                     (''Estimated material parameters '', optimal_control res)]"
proof -
  from demo_main_Inr [OF assms] obtain p c w1 A res h2 h3 vol h4
    where "create_problem ext (w\<lparr>annotate := True\<rparr>) = (Inr (p, c), w1)"
      and "a_problem A = p" and "a_control A = c"
      and "assimilate ext A (heap w1) = (Inr res, h2)"
      and "material_a (material p) = Inr c"
      and "solve ext p (assign_heap h2 c (Scalar (optimal_control res))) = (Inr (), h3)"
      and "cavity_volume ext (geometry p) (Sub (state p) 0) h3 = (Inr vol, h4)"
      and "w' = w1\<lparr>heap := h4,
                  out := out w1 @ [(''Target volume: '', 2.8), (''Model volume: '', vol),
                    (''Estimated material parameters '', optimal_control res)]\<rparr>"
    by blast
  then have
    "create_problem ext (w\<lparr>annotate := True\<rparr>) = (Inr (p, c), w1)
     \<and> a_problem A = p \<and> a_control A = c
     \<and> assimilate ext A (heap w1) = (Inr res, h2)
     \<and> material_a (material p) = Inr c
     \<and> length (assign_heap h2 c (Scalar (optimal_control res))) = length h2
     \<and> (\<forall>i. i \<noteq> c \<longrightarrow> assign_heap h2 c (Scalar (optimal_control res)) ! i = h2 ! i)
     \<and> (c < length h2 \<longrightarrow>
          get_value (assign_heap h2 c (Scalar (optimal_control res)) ! c)
            = Scalar (optimal_control res))
     \<and> solve ext p (assign_heap h2 c (Scalar (optimal_control res))) = (Inr (), h3)
     \<and> cavity_volume ext (geometry p) (Sub (state p) 0) h3 = (Inr vol, h4)
     \<and> heap w' = h4
     \<and> out w' = out w1 @ [(''Target volume: '', 2.8), (''Model volume: '', vol),
                 (''Estimated material parameters '', optimal_control res)]"
    by (simp add: assign_heap_length assign_heap_other assign_heap_same)
  then show ?thesis by blast
qed

theorem demo_main_assigns_control_and_resolves_witness:
  "demo_main ext0 world0 = (Inr (), world2)
   \<and> (\<exists>p c w1 (res :: assimilation_result) h2 h3.
         create_problem ext0 (world0\<lparr>annotate := True\<rparr>) = (Inr (p, c), w1)
       \<and> material_a (material p) = Inr c
       \<and> solve ext0 p (assign_heap h2 c (Scalar (optimal_control res))) = (Inr (), h3))"
proof -
  from demo_main_assigns_control_and_resolves [OF demo_main_ext0]
  obtain p c w1 and res :: assimilation_result and h2 h3
    where "create_problem ext0 (world0\<lparr>annotate := True\<rparr>) = (Inr (p, c), w1)"
      and "material_a (material p) = Inr c"
      and "solve ext0 p (assign_heap h2 c (Scalar (optimal_control res))) = (Inr (), h3)"
    by blast
  with demo_main_ext0 show ?thesis by blast
qed





lemma report_Inl_out: "report ext p c A w = (Inl e, w') \<Longrightarrow> out w' = out w"
  by (auto simp: report_def split: prod.splits sum.splits)






lemma demo_main_after_create:
  assumes "create_problem ext (w\<lparr>annotate := True\<rparr>) = (Inr (p, c), w1)"
    and "markers (geometry p) ''ENDO'' = Some en" and "neumann (bcs p) = bc0 # rest"
  shows "demo_main ext w = report ext p c (demo_assimilator p c en bc0) w1"
proof -
  from create_problem_Inr [OF assms(1)] obtain path g en' ba
    where "mesh_paths ext ''simple_ellipsoid'' = Some path" and "from_file ext path = Inr g"
      and "markers g ''ENDO'' = Some en'" and "markers g ''BASE'' = Some ba"
      and p: "p = built ext g (length (heap w)) en' ba" and "c = length (heap w) + 1"
      and "w1 = w\<lparr>heap := heap w @ created ext g, annotate := True\<rparr>"
    by auto
  moreover from p assms(2) \<open>markers g ''ENDO'' = Some en'\<close> have "en' = en"
    by (simp add: built_def)
  moreover from p assms(3) have "bc0 = NeumannBC (length (heap w) + 5) (IntV (fst en')) ''lv''"
    by (simp add: built_def)
  ultimately show ?thesis
    by (simp add: demo_main_eq)
qed

lemma demo_calls_propagate:
  assumes "create_problem ext (w\<lparr>annotate := True\<rparr>) = (Inr (p, c), w1)"
    and "markers (geometry p) ''ENDO'' = Some en" and "neumann (bcs p) = bc0 # rest"
  shows "(\<forall>e h2. assimilate ext (demo_assimilator p c en bc0) (heap w1) = (Inl e, h2) \<longrightarrow>
            demo_main ext w = (Inl e, w1\<lparr>heap := h2\<rparr>))
       \<and> (\<forall>res h2. assimilate ext (demo_assimilator p c en bc0) (heap w1) = (Inr res, h2) \<longrightarrow>
            (\<forall>e h3. solve ext p (assign_heap h2 c (Scalar (optimal_control res))) = (Inl e, h3) \<longrightarrow>
               demo_main ext w = (Inl e, w1\<lparr>heap := h3\<rparr>))
          \<and> (\<forall>h3. solve ext p (assign_heap h2 c (Scalar (optimal_control res))) = (Inr (), h3) \<longrightarrow>
               (\<forall>e h4. cavity_volume ext (geometry p) (Sub (state p) 0) h3 = (Inl e, h4) \<longrightarrow>
                  demo_main ext w = (Inl e, w1\<lparr>heap := h4\<rparr>))))"
  unfolding demo_main_after_create [OF assms]
  by (simp add: report_def)

lemma test_calls_propagate:
  "(\<forall>e w1. fx w = (Inl e, w1) \<longrightarrow> test_main ext fx w = (Inl e, w1))
   \<and> (\<forall>p c w1. fx w = (Inr (p, c), w1) \<longrightarrow>
        (markers (geometry p) ''ENDO'' = None \<longrightarrow>
           test_main ext fx w = (Inl (KeyError ''ENDO''), w1\<lparr>heap := heap w1 @ [test_u p]\<rparr>))
      \<and> (\<forall>m. markers (geometry p) ''ENDO'' = Some m \<longrightarrow>
           (\<forall>e h2. observe ext (test_volume_obs p m) (length (heap w1)) (heap w1 @ [test_u p])
                      = (Inl e, h2) \<longrightarrow>
              test_main ext fx w = (Inl e, w1\<lparr>heap := h2\<rparr>))
         \<and> (\<forall>h2. observe ext (test_volume_obs p m) (length (heap w1)) (heap w1 @ [test_u p])
                      = (Inr [], h2) \<longrightarrow>
              test_main ext fx w = (Inl IndexError, w1\<lparr>heap := h2\<rparr>))
         \<and> (\<forall>v vs h2. observe ext (test_volume_obs p m) (length (heap w1)) (heap w1 @ [test_u p])
                      = (Inr (v # vs), h2) \<longrightarrow>
              (neumann (bcs p) = [] \<longrightarrow>
                 test_main ext fx w =
                   (Inl IndexError, w1\<lparr>heap := h2, out := out w1 @ [('''', v)]\<rparr>))
            \<and> (\<forall>bc0 rest. neumann (bcs p) = bc0 # rest \<longrightarrow>
                 (\<forall>e h3. assimilate ext (test_assimilator p c m bc0) h2 = (Inl e, h3) \<longrightarrow>
                    test_main ext fx w =
                      (Inl e, w1\<lparr>heap := h3, out := out w1 @ [('''', v)]\<rparr>))
               \<and> (\<forall>r h3. assimilate ext (test_assimilator p c m bc0) h2 = (Inr r, h3) \<longrightarrow>
                    (\<forall>e h4. import_IPython ext h3 = (Inl e, h4) \<longrightarrow>
                       test_main ext fx w =
                         (Inl e, w1\<lparr>heap := h4, out := out w1 @ [('''', v)]\<rparr>))
                  \<and> (\<forall>h4. import_IPython ext h3 = (Inr (), h4) \<longrightarrow>
                       (\<forall>e h5. embed ext h4 = (Inl e, h5) \<longrightarrow>
                          test_main ext fx w =
                            (Inl e, w1\<lparr>heap := h5, out := out w1 @ [('''', v)]\<rparr>))
                     \<and> (\<forall>h5. embed ext h4 = (Inr (), h5) \<longrightarrow>
                          test_main ext fx w =
                            (Inl SystemExit,
                             w1\<lparr>heap := h5, out := out w1 @ [('''', v)]\<rparr>))))))))"
  by (simp add: test_main_eq interact_def)

lemma demo_lookups_propagate:
  "(mesh_paths ext ''simple_ellipsoid'' = None \<longrightarrow>
      demo_main ext w = (Inl (KeyError ''simple_ellipsoid''), w\<lparr>annotate := True\<rparr>))
   \<and> (\<forall>path. mesh_paths ext ''simple_ellipsoid'' = Some path \<longrightarrow>
        (\<forall>e. from_file ext path = Inl e \<longrightarrow> demo_main ext w = (Inl e, w\<lparr>annotate := True\<rparr>))
      \<and> (\<forall>g. from_file ext path = Inr g \<longrightarrow>
           (markers g ''ENDO'' = None \<longrightarrow>
              demo_main ext w =
                (Inl (KeyError ''ENDO''),
                 w\<lparr>heap := heap w @ take 6 (created ext g), annotate := True\<rparr>))
         \<and> (\<forall>en. markers g ''ENDO'' = Some en \<longrightarrow> markers g ''BASE'' = None \<longrightarrow>
              demo_main ext w =
                (Inl (KeyError ''BASE''),
                 w\<lparr>heap := heap w @ take 7 (created ext g), annotate := True\<rparr>))))"
  by (simp add: demo_main_eq)

lemma demo_failure_origin:
  "\<forall>e w'. demo_main ext w = (Inl e, w') \<longrightarrow>
      out w' = out w
      \<and> (mesh_paths ext ''simple_ellipsoid'' = None \<and> e = KeyError ''simple_ellipsoid''
         \<or> (\<exists>path. from_file ext path = Inl e)
         \<or> e = KeyError ''ENDO''
         \<or> e = KeyError ''BASE''
         \<or> (\<exists>A h h'. assimilate ext A h = (Inl e, h'))
         \<or> (\<exists>p h h'. solve ext p h = (Inl e, h'))
         \<or> (\<exists>g u h h'. cavity_volume ext g u h = (Inl e, h')))"
proof (intro conjI allI impI)
  fix e w'
  assume "demo_main ext w = (Inl e, w')"
  then show "out w' = out w"
    unfolding demo_main_eq
    by (auto split: option.splits sum.splits dest: report_Inl_out)
next
  fix e w'
  assume "demo_main ext w = (Inl e, w')"
  then show "mesh_paths ext ''simple_ellipsoid'' = None \<and> e = KeyError ''simple_ellipsoid''
         \<or> (\<exists>path. from_file ext path = Inl e)
         \<or> e = KeyError ''ENDO''
         \<or> e = KeyError ''BASE''
         \<or> (\<exists>A h h'. assimilate ext A h = (Inl e, h'))
         \<or> (\<exists>p h h'. solve ext p h = (Inl e, h'))
         \<or> (\<exists>g u h h'. cavity_volume ext g u h = (Inl e, h'))"
    unfolding demo_main_eq
    by (auto split: option.splits sum.splits dest!: report_Inl)
qed

text \<open>
  C7. Every statement of the two scripts that can raise ends the run with the exception
  it raised, and with the objects as that statement left them.

  For \<^verbatim>\<open>main\<close> of demo.py: an exception that leaves it is the missing key of a lookup or
  the error a library call returned, and nothing has been printed; a missing entry of
  \<^verbatim>\<open>pulse.mesh_paths\<close>, a mesh that cannot be read, a geometry without the marker ENDO
  or BASE end the run with that error; and at the assimilator the script builds, a
  failing \<^verbatim>\<open>assimilate()\<close>, a failing \<^verbatim>\<open>solve()\<close> on the objects with the optimum
  assigned, and a failing \<^verbatim>\<open>cavity_volume\<close> on the solved state end the run with that
  error.

  For \<^verbatim>\<open>main\<close> of test_assimilator.py: a failing fixture, a geometry without ENDO, a
  failing evaluation of the volume observation on the zero displacement, an empty result
  of it, an empty list of Neumann conditions, a failing \<^verbatim>\<open>assimilate()\<close> at the
  assimilator the script builds, a failing import of IPython and a failing \<^verbatim>\<open>embed()\<close>
  end the run with that error; when none fails the run ends with the \<^verbatim>\<open>SystemExit\<close> of
  \<^verbatim>\<open>exit()\<close>.
\<close>

theorem failures_propagate:
  "(\<forall>e w'. demo_main ext w = (Inl e, w') \<longrightarrow>
      out w' = out w
      \<and> (mesh_paths ext ''simple_ellipsoid'' = None \<and> e = KeyError ''simple_ellipsoid''
         \<or> (\<exists>path. from_file ext path = Inl e)
         \<or> e = KeyError ''ENDO''
         \<or> e = KeyError ''BASE''
         \<or> (\<exists>A h h'. assimilate ext A h = (Inl e, h'))
         \<or> (\<exists>p h h'. solve ext p h = (Inl e, h'))
         \<or> (\<exists>g u h h'. cavity_volume ext g u h = (Inl e, h'))))
   \<and> ((mesh_paths ext ''simple_ellipsoid'' = None \<longrightarrow>
         demo_main ext w = (Inl (KeyError ''simple_ellipsoid''), w\<lparr>annotate := True\<rparr>))
      \<and> (\<forall>path. mesh_paths ext ''simple_ellipsoid'' = Some path \<longrightarrow>
           (\<forall>e. from_file ext path = Inl e \<longrightarrow>
              demo_main ext w = (Inl e, w\<lparr>annotate := True\<rparr>))
         \<and> (\<forall>g. from_file ext path = Inr g \<longrightarrow>
              (markers g ''ENDO'' = None \<longrightarrow>
                 demo_main ext w =
                   (Inl (KeyError ''ENDO''),
                    w\<lparr>heap := heap w @ take 6 (created ext g), annotate := True\<rparr>))
            \<and> (\<forall>en. markers g ''ENDO'' = Some en \<longrightarrow> markers g ''BASE'' = None \<longrightarrow>
                 demo_main ext w =
                   (Inl (KeyError ''BASE''),
                    w\<lparr>heap := heap w @ take 7 (created ext g), annotate := True\<rparr>)))))
   \<and> (\<forall>p c w1 en bc0 rest.
         create_problem ext (w\<lparr>annotate := True\<rparr>) = (Inr (p, c), w1) \<longrightarrow>
         markers (geometry p) ''ENDO'' = Some en \<longrightarrow>
         neumann (bcs p) = bc0 # rest \<longrightarrow>
           (\<forall>e h2. assimilate ext (demo_assimilator p c en bc0) (heap w1) = (Inl e, h2) \<longrightarrow>
              demo_main ext w = (Inl e, w1\<lparr>heap := h2\<rparr>))
         \<and> (\<forall>res h2. assimilate ext (demo_assimilator p c en bc0) (heap w1) = (Inr res, h2) \<longrightarrow>
              (\<forall>e h3. solve ext p (assign_heap h2 c (Scalar (optimal_control res))) = (Inl e, h3)
                 \<longrightarrow> demo_main ext w = (Inl e, w1\<lparr>heap := h3\<rparr>))
            \<and> (\<forall>h3. solve ext p (assign_heap h2 c (Scalar (optimal_control res))) = (Inr (), h3)
                 \<longrightarrow> (\<forall>e h4. cavity_volume ext (geometry p) (Sub (state p) 0) h3 = (Inl e, h4)
                        \<longrightarrow> demo_main ext w = (Inl e, w1\<lparr>heap := h4\<rparr>)))))
   \<and> ((\<forall>e w1. fx w = (Inl e, w1) \<longrightarrow> test_main ext fx w = (Inl e, w1))
      \<and> (\<forall>p c w1. fx w = (Inr (p, c), w1) \<longrightarrow>
           (markers (geometry p) ''ENDO'' = None \<longrightarrow>
              test_main ext fx w =
                (Inl (KeyError ''ENDO''), w1\<lparr>heap := heap w1 @ [test_u p]\<rparr>))
         \<and> (\<forall>m. markers (geometry p) ''ENDO'' = Some m \<longrightarrow>
              (\<forall>e h2. observe ext (test_volume_obs p m) (length (heap w1))
                         (heap w1 @ [test_u p]) = (Inl e, h2) \<longrightarrow>
                 test_main ext fx w = (Inl e, w1\<lparr>heap := h2\<rparr>))
            \<and> (\<forall>h2. observe ext (test_volume_obs p m) (length (heap w1))
                         (heap w1 @ [test_u p]) = (Inr [], h2) \<longrightarrow>
                 test_main ext fx w = (Inl IndexError, w1\<lparr>heap := h2\<rparr>))
            \<and> (\<forall>v vs h2. observe ext (test_volume_obs p m) (length (heap w1))
                         (heap w1 @ [test_u p]) = (Inr (v # vs), h2) \<longrightarrow>
                 (neumann (bcs p) = [] \<longrightarrow>
                    test_main ext fx w =
                      (Inl IndexError, w1\<lparr>heap := h2, out := out w1 @ [('''', v)]\<rparr>))
               \<and> (\<forall>bc0 rest. neumann (bcs p) = bc0 # rest \<longrightarrow>
                    (\<forall>e h3. assimilate ext (test_assimilator p c m bc0) h2 = (Inl e, h3) \<longrightarrow>
                       test_main ext fx w =
                         (Inl e, w1\<lparr>heap := h3, out := out w1 @ [('''', v)]\<rparr>))
                  \<and> (\<forall>r h3. assimilate ext (test_assimilator p c m bc0) h2 = (Inr r, h3) \<longrightarrow>
                       (\<forall>e h4. import_IPython ext h3 = (Inl e, h4) \<longrightarrow>
                          test_main ext fx w =
                            (Inl e, w1\<lparr>heap := h4, out := out w1 @ [('''', v)]\<rparr>))
                     \<and> (\<forall>h4. import_IPython ext h3 = (Inr (), h4) \<longrightarrow>
                          (\<forall>e h5. embed ext h4 = (Inl e, h5) \<longrightarrow>
                             test_main ext fx w =
                               (Inl e, w1\<lparr>heap := h5, out := out w1 @ [('''', v)]\<rparr>))
                        \<and> (\<forall>h5. embed ext h4 = (Inr (), h5) \<longrightarrow>
                             test_main ext fx w =
                               (Inl SystemExit,
                                w1\<lparr>heap := h5, out := out w1 @ [('''', v)]\<rparr>)))))))))"
  apply (rule conjI, rule demo_failure_origin)
  apply (rule conjI, rule demo_lookups_propagate)
  apply (rule conjI, intro allI impI, rule demo_calls_propagate, assumption+)
  apply (rule test_calls_propagate)
  done

lemma problem0_parts:
  "markers (geometry problem0) ''ENDO'' = Some (30, 2)"
  "neumann (bcs problem0) = [NeumannBC 5 (IntV 30) ''lv'']"
  by (simp_all add: problem0_def built_def geometry0_def)

lemma ext0_calls:
  "observe ext0 vo u h = (Inr [2.5], h)"
  "assimilate ext0 A h = (Inr \<lparr>optimal_control = 2\<rparr>, h)"
  "import_IPython ext0 h = (Inr (), h)"
  "embed ext0 h = (Inr (), h)"
  by (simp_all add: ext0_def)

lemma test_failing_calls:
  "observe ext_no_reading vo u h = (Inr [], h)"
  "observe ext_no_optimum vo u h = (Inr [2.5], h)"
  "assimilate ext_no_optimum A h = (Inl (LibraryError ''optimizer failed''), h)"
  "observe ext_no_ipython vo u h = (Inr [2.5], h)"
  "assimilate ext_no_ipython A h = (Inr \<lparr>optimal_control = 2\<rparr>, h)"
  "import_IPython ext_no_ipython h = (Inl (ImportError ''IPython''), h)"
  "observe ext_no_shell vo u h = (Inr [2.5], h)"
  "assimilate ext_no_shell A h = (Inr \<lparr>optimal_control = 2\<rparr>, h)"
  "import_IPython ext_no_shell h = (Inr (), h)"
  "embed ext_no_shell h = (Inl (LibraryError ''no terminal''), h)"
  by (simp_all add: ext0_def ext_no_reading_def ext_no_optimum_def ext_no_ipython_def
      ext_no_shell_def)

lemma observe_int_only:
  "observe ext_int_only (test_volume_obs p m) u h = (Inl (ValueError ''subdomain is a pair''), h)"
  by (simp add: ext_int_only_def test_volume_obs_def integer_subdomain_def)

lemma failing_fixtures:
  "create_problem ext_no_mesh world0 = (Inl (LibraryError ''file not found''), world0)"
  "fx_no_endo world0 =
     (Inr (Problem (geometry0\<lparr>markers := Map.empty\<rparr>) (material problem0) (bcs problem0) 7, 1),
      world0)"
  "fx_no_neumann world0 =
     (Inr (Problem geometry0 (material problem0) (BoundaryConditions [] [] []) 7, 1), world0)"
  by (simp_all add: create_problem_eq ext_no_mesh_def ext0_def fx_no_endo_def fx_no_neumann_def
      return_io_def)

lemma demo_failing_lookups:
  "mesh_paths ext_no_path ''simple_ellipsoid'' = None"
  "mesh_paths ext_no_mesh ''simple_ellipsoid'' = Some ''simple_ellipsoid.h5''"
  "from_file ext_no_mesh path = Inl (LibraryError ''file not found'')"
  "mesh_paths ext_no_endo ''simple_ellipsoid'' = Some ''simple_ellipsoid.h5''"
  "from_file ext_no_endo path = Inr (geometry0\<lparr>markers := [''BASE'' \<mapsto> (10, 2)]\<rparr>)"
  "mesh_paths ext_no_base ''simple_ellipsoid'' = Some ''simple_ellipsoid.h5''"
  "from_file ext_no_base path = Inr (geometry0\<lparr>markers := [''ENDO'' \<mapsto> (30, 2)]\<rparr>)"
  by (simp_all add: ext_no_path_def ext_no_mesh_def ext_no_endo_def ext_no_base_def ext0_def)

lemma demo_created:
  "create_problem ext_no_optimum (world0\<lparr>annotate := True\<rparr>) =
     (Inr (built ext_no_optimum geometry0 0 (30, 2) (10, 2), 1),
      world0\<lparr>heap := created ext_no_optimum geometry0, annotate := True\<rparr>)"
  "create_problem ext_no_solution (world0\<lparr>annotate := True\<rparr>) =
     (Inr (built ext_no_solution geometry0 0 (30, 2) (10, 2), 1),
      world0\<lparr>heap := created ext_no_solution geometry0, annotate := True\<rparr>)"
  "create_problem ext_no_volume (world0\<lparr>annotate := True\<rparr>) =
     (Inr (built ext_no_volume geometry0 0 (30, 2) (10, 2), 1),
      world0\<lparr>heap := created ext_no_volume geometry0, annotate := True\<rparr>)"
  by (simp_all add: create_problem_eq ext_no_optimum_def ext_no_solution_def ext_no_volume_def
      ext0_def geometry0_def world0_def)

lemma built_parts:
  "markers (geometry (built ext geometry0 0 (30, 2) (10, 2))) ''ENDO'' = Some (30, 2)"
  "neumann (bcs (built ext geometry0 0 (30, 2) (10, 2))) = [NeumannBC 5 (IntV 30) ''lv'']"
  by (simp_all add: built_def geometry0_def)

lemma demo_failing_calls:
  "assimilate ext_no_optimum A h = (Inl (LibraryError ''optimizer failed''), h)"
  "assimilate ext_no_solution A h = (Inr \<lparr>optimal_control = 2\<rparr>, h)"
  "solve ext_no_solution p h = (Inl (LibraryError ''no convergence''), h)"
  "assimilate ext_no_volume A h = (Inr \<lparr>optimal_control = 2\<rparr>, h)"
  "solve ext_no_volume p h = (Inr (), assign_heap h (state p) (Mixed (Dofs [0.1]) (Dofs [0.2])))"
  "cavity_volume ext_no_volume g u h = (Inl (LibraryError ''no volume''), h)"
  by (simp_all add: ext_no_optimum_def ext_no_solution_def ext_no_volume_def ext0_def)

theorem failures_propagate_witness:
  "demo_main ext_no_path world0 =
     (Inl (KeyError ''simple_ellipsoid''), world0\<lparr>annotate := True\<rparr>)
   \<and> demo_main ext_no_mesh world0 =
       (Inl (LibraryError ''file not found''), world0\<lparr>annotate := True\<rparr>)
   \<and> fst (demo_main ext_no_endo world0) = Inl (KeyError ''ENDO'')
   \<and> fst (demo_main ext_no_base world0) = Inl (KeyError ''BASE'')
   \<and> fst (demo_main ext_no_optimum world0) = Inl (LibraryError ''optimizer failed'')
   \<and> fst (demo_main ext_no_solution world0) = Inl (LibraryError ''no convergence'')
   \<and> fst (demo_main ext_no_volume world0) = Inl (LibraryError ''no volume'')
   \<and> out (snd (demo_main ext_no_volume world0)) = out world0
   \<and> test_main ext0 (create_problem ext_no_mesh) world0 =
       (Inl (LibraryError ''file not found''), world0)
   \<and> fst (test_main ext0 fx_no_endo world0) = Inl (KeyError ''ENDO'')
   \<and> fst (test_main ext_int_only (create_problem ext0) world0) =
       Inl (ValueError ''subdomain is a pair'')
   \<and> fst (test_main ext_no_reading (create_problem ext0) world0) = Inl IndexError
   \<and> fst (test_main ext0 fx_no_neumann world0) = Inl IndexError
   \<and> fst (test_main ext_no_optimum (create_problem ext0) world0) =
       Inl (LibraryError ''optimizer failed'')
   \<and> fst (test_main ext_no_ipython (create_problem ext0) world0) = Inl (ImportError ''IPython'')
   \<and> fst (test_main ext_no_shell (create_problem ext0) world0) =
       Inl (LibraryError ''no terminal'')
   \<and> fst (test_main ext0 (create_problem ext0) world0) = Inl SystemExit"
proof -
  have d1: "demo_main ext_no_path world0 =
      (Inl (KeyError ''simple_ellipsoid''), world0\<lparr>annotate := True\<rparr>)"
    using failures_propagate [where ext = ext_no_path and w = world0 and fx = fx_no_endo]
    by (simp add: demo_failing_lookups)
  have d2: "demo_main ext_no_mesh world0 =
      (Inl (LibraryError ''file not found''), world0\<lparr>annotate := True\<rparr>)"
    using failures_propagate [where ext = ext_no_mesh and w = world0 and fx = fx_no_endo]
    by (simp add: demo_failing_lookups)
  have d3: "fst (demo_main ext_no_endo world0) = Inl (KeyError ''ENDO'')"
    using failures_propagate [where ext = ext_no_endo and w = world0 and fx = fx_no_endo]
    by (simp add: demo_failing_lookups)
  have d4: "fst (demo_main ext_no_base world0) = Inl (KeyError ''BASE'')"
    using failures_propagate [where ext = ext_no_base and w = world0 and fx = fx_no_endo]
    by (simp add: demo_failing_lookups)
  have d5: "fst (demo_main ext_no_optimum world0) = Inl (LibraryError ''optimizer failed'')"
    using failures_propagate [where ext = ext_no_optimum and w = world0 and fx = fx_no_endo]
    by (simp add: demo_created built_parts demo_failing_calls)
  have d6: "fst (demo_main ext_no_solution world0) = Inl (LibraryError ''no convergence'')"
    using failures_propagate [where ext = ext_no_solution and w = world0 and fx = fx_no_endo]
    by (simp add: demo_created built_parts demo_failing_calls)
  have d7: "demo_main ext_no_volume world0 =
      (Inl (LibraryError ''no volume''), snd (demo_main ext_no_volume world0))"
    using failures_propagate [where ext = ext_no_volume and w = world0 and fx = fx_no_endo]
    by (simp add: demo_created built_parts demo_failing_calls)
  have d8: "out (snd (demo_main ext_no_volume world0)) = out world0"
    using failures_propagate [where ext = ext_no_volume and w = world0 and fx = fx_no_endo,
        THEN conjunct1, rule_format, OF d7]
    by simp
  have t1: "test_main ext0 (create_problem ext_no_mesh) world0 =
      (Inl (LibraryError ''file not found''), world0)"
    using failures_propagate [where ext = ext0 and w = world0
        and fx = "create_problem ext_no_mesh"]
    by (simp add: failing_fixtures)
  have t2: "fst (test_main ext0 fx_no_endo world0) = Inl (KeyError ''ENDO'')"
    using failures_propagate [where ext = ext0 and w = world0 and fx = fx_no_endo]
    by (simp add: failing_fixtures)
  have t3: "fst (test_main ext_int_only (create_problem ext0) world0) =
      Inl (ValueError ''subdomain is a pair'')"
    using failures_propagate [where ext = ext_int_only and w = world0
        and fx = "create_problem ext0"]
    by (simp add: create_problem_ext0 problem0_parts observe_int_only)
  have t4: "fst (test_main ext_no_reading (create_problem ext0) world0) = Inl IndexError"
    using failures_propagate [where ext = ext_no_reading and w = world0
        and fx = "create_problem ext0"]
    by (simp add: create_problem_ext0 problem0_parts test_failing_calls)
  have t5: "fst (test_main ext0 fx_no_neumann world0) = Inl IndexError"
  proof -
    let ?p = "Problem geometry0 (material problem0) (BoundaryConditions [] [] []) 7"
    have endo: "markers (geometry ?p) ''ENDO'' = Some (30, 2)"
      by (simp add: geometry0_def)
    have reading: "observe ext0 (test_volume_obs ?p (30, 2)) (length (heap world0))
        (heap world0 @ [test_u ?p]) = (Inr [2.5], heap world0 @ [test_u ?p])"
      by (simp add: ext0_calls)
    have none: "neumann (bcs ?p) = []"
      by simp
    from failures_propagate [where ext = ext0 and w = world0 and fx = fx_no_neumann,
        THEN conjunct2, THEN conjunct2, THEN conjunct2, THEN conjunct2, rule_format,
        OF failing_fixtures(3), THEN conjunct2, rule_format, OF endo,
        THEN conjunct2, THEN conjunct2, rule_format, OF reading, THEN conjunct1,
        rule_format, OF none]
    show ?thesis by simp
  qed
  note fixture = create_problem_ext0
  note endo = problem0_parts(1)
  note bc = problem0_parts(2)
  have t6: "fst (test_main ext_no_optimum (create_problem ext0) world0) =
      Inl (LibraryError ''optimizer failed'')"
    using failures_propagate [where ext = ext_no_optimum and w = world0
        and fx = "create_problem ext0",
        THEN conjunct2, THEN conjunct2, THEN conjunct2, THEN conjunct2, rule_format,
        OF fixture, THEN conjunct2, rule_format, OF endo,
        THEN conjunct2, THEN conjunct2, rule_format, OF test_failing_calls(2),
        THEN conjunct2, rule_format, OF bc,
        THEN conjunct1, rule_format, OF test_failing_calls(3)]
    by simp
  have t7: "fst (test_main ext_no_ipython (create_problem ext0) world0) =
      Inl (ImportError ''IPython'')"
    using failures_propagate [where ext = ext_no_ipython and w = world0
        and fx = "create_problem ext0",
        THEN conjunct2, THEN conjunct2, THEN conjunct2, THEN conjunct2, rule_format,
        OF fixture, THEN conjunct2, rule_format, OF endo,
        THEN conjunct2, THEN conjunct2, rule_format, OF test_failing_calls(4),
        THEN conjunct2, rule_format, OF bc,
        THEN conjunct2, rule_format, OF test_failing_calls(5),
        THEN conjunct1, rule_format, OF test_failing_calls(6)]
    by simp
  have t8: "fst (test_main ext_no_shell (create_problem ext0) world0) =
      Inl (LibraryError ''no terminal'')"
    using failures_propagate [where ext = ext_no_shell and w = world0
        and fx = "create_problem ext0",
        THEN conjunct2, THEN conjunct2, THEN conjunct2, THEN conjunct2, rule_format,
        OF fixture, THEN conjunct2, rule_format, OF endo,
        THEN conjunct2, THEN conjunct2, rule_format, OF test_failing_calls(7),
        THEN conjunct2, rule_format, OF bc,
        THEN conjunct2, rule_format, OF test_failing_calls(8),
        THEN conjunct2, rule_format, OF test_failing_calls(9),
        THEN conjunct1, rule_format, OF test_failing_calls(10)]
    by simp
  have t9: "fst (test_main ext0 (create_problem ext0) world0) = Inl SystemExit"
    using failures_propagate [where ext = ext0 and w = world0
        and fx = "create_problem ext0",
        THEN conjunct2, THEN conjunct2, THEN conjunct2, THEN conjunct2, rule_format,
        OF fixture, THEN conjunct2, rule_format, OF endo,
        THEN conjunct2, THEN conjunct2, rule_format, OF ext0_calls(1),
        THEN conjunct2, rule_format, OF bc,
        THEN conjunct2, rule_format, OF ext0_calls(2),
        THEN conjunct2, rule_format, OF ext0_calls(3),
        THEN conjunct2, rule_format, OF ext0_calls(4)]
    by simp
  have d7': "fst (demo_main ext_no_volume world0) = Inl (LibraryError ''no volume'')"
    by (subst d7) simp
  from d1 d2 d3 d4 d5 d6 d7' d8 t1 t2 t3 t4 t5 t6 t7 t8 t9 show ?thesis
    by simp
qed

text \<open>
  C4, at the simple ellipsoid, whose marker table has ENDO at the pair (30, 2). With a
  library that takes an integer subdomain id only, the test script fails when it evaluates
  its volume observation, because it was built as \<^verbatim>\<open>geo.ds(geo.markers["ENDO"])\<close> over
  the whole pair; the demo, which passes \<^verbatim>\<open>markers["ENDO"][0]\<close>, runs to its end.
\<close>

theorem test_main_passes_marker_pair:
  "fst (test_main ext_int_only (create_problem ext_int_only) world0) =
     Inl (ValueError ''subdomain is a pair'')
   \<and> fst (demo_main ext_int_only world0) = Inr ()"
proof -
  have cp: "create_problem ext_int_only world0 =
      (Inr (built ext_int_only geometry0 0 (30, 2) (10, 2), 1),
       world0\<lparr>heap := created ext_int_only geometry0\<rparr>)"
    by (simp add: create_problem_eq ext_int_only_def ext0_def geometry0_def world0_def)
  have "fst (test_main ext_int_only (create_problem ext_int_only) world0) =
     Inl (ValueError ''subdomain is a pair'')"
    unfolding test_main_eq cp
    by (simp add: built_def geometry0_def test_volume_obs_def integer_subdomain_def
        ext_int_only_def)
  moreover have "fst (demo_main ext_int_only world0) = Inr ()"
    by (simp add: demo_main_eq report_def demo_assimilator_def integer_subdomain_def
        target_list_def built_def ext_int_only_def ext0_def geometry0_def world0_def)
  ultimately show ?thesis by simp
qed

end
